theory Spec2Isabelle
  imports Complex_Main "HOL-Library.Word"
begin

section \<open>Lane isolation: arrays, the threshold utility and the selection pipeline\<close>

text \<open>
  The development follows \<^verbatim>\<open>LaneDetector.py\<close>, class \<^verbatim>\<open>LaneIsolator\<close>.
  A numpy array is a shape together with its samples in row-major order. An 8-bit
  sample is an \<open>8 word\<close>. A float64 sample is read as the real number it denotes:
  every finite double is a real, and the comparisons of the source compare these
  numbers exactly; infinities, NaN and the rounding of float64 arithmetic are not
  modelled. The calls into \<^verbatim>\<open>cv2\<close> are calls of an interface record, whose
  functions may fail.
\<close>

subsection \<open>Arrays\<close>

type_synonym u8 = "8 word"

datatype error = IndexError | ValueError | Cv2Error

text \<open>A two-dimensional array of shape \<open>(rows, cols)\<close>.\<close>

record 'a plane =
  rows :: nat
  cols :: nat
  samples :: "'a list"

text \<open>
  A three-dimensional array of shape \<open>(height, width, channels)\<close>: one list of
  channel samples for each of the \<open>height * width\<close> pixels, the pixels in row-major
  order.
\<close>

record 'a image =
  height :: nat
  width :: nat
  channels :: nat
  pixels :: "'a list list"

definition wf_plane :: "'a plane \<Rightarrow> bool" where
  "wf_plane p = (length (samples p) = rows p * cols p)"

definition wf_image :: "'a image \<Rightarrow> bool" where
  "wf_image img =
     (length (pixels img) = height img * width img \<and>
      list_all (\<lambda>px. length px = channels img) (pixels img))"

definition same_shape :: "'a plane \<Rightarrow> 'b plane \<Rightarrow> bool" where
  "same_shape a b = (rows a = rows b \<and> cols a = cols b \<and> length (samples a) = length (samples b))"

text \<open>Sequencing of calls that may raise: the first error ends the computation.\<close>

definition thn :: "error + 'a \<Rightarrow> ('a \<Rightarrow> error + 'b) \<Rightarrow> error + 'b" where
  "thn r f = (case r of Inl e \<Rightarrow> Inl e | Inr x \<Rightarrow> f x)"

subsection \<open>The numpy operations the source uses\<close>

text \<open>
  The value of a sample as a number: what numpy compares when an array meets a
  Python number.
\<close>

definition u8val :: "u8 \<Rightarrow> real" where
  "u8val v = real (unat v)"

definition f64val :: "real \<Rightarrow> real" where
  "f64val v = v"

text \<open>\<^verbatim>\<open>np.zeros_like(array)\<close>: same shape, same sample type, all zero.\<close>

definition zeros_like :: "'a::zero plane \<Rightarrow> 'a plane" where
  "zeros_like a = \<lparr>rows = rows a, cols = cols a, samples = map (\<lambda>_. 0) (samples a)\<rparr>"

text \<open>\<^verbatim>\<open>array >= x\<close>, \<^verbatim>\<open>array <= x\<close> and \<^verbatim>\<open>array == 1\<close>: boolean arrays of the same shape.\<close>

definition np_ge :: "('a \<Rightarrow> real) \<Rightarrow> 'a plane \<Rightarrow> real \<Rightarrow> bool plane" where
  "np_ge val a x = \<lparr>rows = rows a, cols = cols a, samples = map (\<lambda>v. x \<le> val v) (samples a)\<rparr>"

definition np_le :: "('a \<Rightarrow> real) \<Rightarrow> 'a plane \<Rightarrow> real \<Rightarrow> bool plane" where
  "np_le val a x = \<lparr>rows = rows a, cols = cols a, samples = map (\<lambda>v. val v \<le> x) (samples a)\<rparr>"

definition np_eq1 :: "'a::one plane \<Rightarrow> bool plane" where
  "np_eq1 a = \<lparr>rows = rows a, cols = cols a, samples = map (\<lambda>v. v = 1) (samples a)\<rparr>"

text \<open>
  An elementwise binary operation. Operands of different shape are reported as
  \<open>ValueError\<close>; numpy would first try to broadcast them, which is left out here:
  every pair of operands in the source is derived from one and the same frame.
\<close>

definition np_binary :: "('a \<Rightarrow> 'b \<Rightarrow> 'c) \<Rightarrow> 'a plane \<Rightarrow> 'b plane \<Rightarrow> error + 'c plane" where
  "np_binary f a b =
     (if same_shape a b
      then Inr \<lparr>rows = rows a, cols = cols a, samples = map2 f (samples a) (samples b)\<rparr>
      else Inl ValueError)"

definition np_and :: "bool plane \<Rightarrow> bool plane \<Rightarrow> error + bool plane" where
  "np_and a b = np_binary (\<lambda>x y. x \<and> y) a b"

definition np_or :: "bool plane \<Rightarrow> bool plane \<Rightarrow> error + bool plane" where
  "np_or a b = np_binary (\<lambda>x y. x \<or> y) a b"

text \<open>
  \<^verbatim>\<open>target[mask] = 1\<close> with a boolean mask: numpy raises IndexError unless the mask
  has the shape of the target.
\<close>

definition set_ones :: "'a::one plane \<Rightarrow> bool plane \<Rightarrow> error + 'a plane" where
  "set_ones target msk =
     (if same_shape target msk
      then Inr \<lparr>rows = rows target, cols = cols target,
                samples = map2 (\<lambda>t m. if m then 1 else t) (samples target) (samples msk)\<rparr>
      else Inl IndexError)"

subsection \<open>The threshold utility\<close>

text \<open>
  \<^verbatim>\<open>_within_threshold(self, array, threshold)\<close>. The first argument is the reading
  of the array's sample type as numbers.
\<close>

definition within_threshold :: "('a::{zero,one} \<Rightarrow> real) \<Rightarrow> 'a plane \<Rightarrow> real \<times> real \<Rightarrow> error + 'a plane" where
  "within_threshold val array threshold =
     (let min_val = fst threshold;
          max_val = snd threshold;
          thresholded = zeros_like array
      in thn (np_and (np_ge val array min_val) (np_le val array max_val))
           (\<lambda>msk. set_ones thresholded msk))"

subsection \<open>Channel access\<close>

text \<open>
  \<^verbatim>\<open>img[:, :, k]\<close>: the plane of channel \<open>k\<close>. numpy raises IndexError when the
  array has no channel \<open>k\<close>, whatever its height and width.
\<close>

definition get_channel :: "'a image \<Rightarrow> nat \<Rightarrow> error + 'a plane" where
  "get_channel img k =
     (if k < channels img
      then Inr \<lparr>rows = height img, cols = width img, samples = map (\<lambda>px. px ! k) (pixels img)\<rparr>
      else Inl IndexError)"

text \<open>
  \<^verbatim>\<open>img[:, :, k] = p\<close>: channel \<open>k\<close> of every pixel is overwritten. A plane of
  another shape is reported as \<open>ValueError\<close> (numpy's broadcasting of a smaller
  right-hand side is left out: the right-hand side in the source is the library's
  answer for a plane of this very image).
\<close>

definition set_channel :: "'a image \<Rightarrow> nat \<Rightarrow> 'a plane \<Rightarrow> error + 'a image" where
  "set_channel img k p =
     (if \<not> k < channels img then Inl IndexError
      else if rows p = height img \<and> cols p = width img \<and> length (samples p) = length (pixels img)
      then Inr (img\<lparr>pixels := map2 (\<lambda>px v. px[k := v]) (pixels img) (samples p)\<rparr>)
      else Inl ValueError)"

subsection \<open>The interface to the image library\<close>

text \<open>
  The calls \<^verbatim>\<open>cv2.equalizeHist\<close>, \<^verbatim>\<open>cv2.cvtColor\<close> and \<^verbatim>\<open>cv2.Sobel\<close> are not part of
  the source; the pipeline is parametrised by them. \<^verbatim>\<open>cv2.cvtColor\<close> with
  \<^verbatim>\<open>COLOR_BGR2GRAY\<close> answers with a two-dimensional array and has an entry of its own.
  \<open>Sobel\<close> takes the source array and \<open>dx\<close>, \<open>dy\<close>, \<open>ksize\<close>; its depth argument is
  always \<^verbatim>\<open>CV_64F\<close>, which is the sample type of its result. A call either
  answers with an array or raises the library's error.
\<close>

datatype color_code = COLOR_BGR2LUV | COLOR_BGR2HLS | COLOR_BGR2Lab

record cv2 =
  equalizeHist :: "u8 plane \<Rightarrow> u8 plane option"
  cvtColor :: "u8 image \<Rightarrow> color_code \<Rightarrow> u8 image option"
  cvtColor_BGR2GRAY :: "u8 image \<Rightarrow> u8 plane option"
  Sobel :: "u8 plane \<Rightarrow> nat \<Rightarrow> nat \<Rightarrow> nat \<Rightarrow> real plane option"

text \<open>A library call that answers \<open>None\<close> has raised \<^verbatim>\<open>cv2.error\<close>.\<close>

definition cv2_call :: "'a option \<Rightarrow> error + 'a" where
  "cv2_call r = (case r of None \<Rightarrow> Inl Cv2Error | Some x \<Rightarrow> Inr x)"

text \<open>A frame as the pipeline expects it: three channels, not empty.\<close>

definition valid_frame :: "'a image \<Rightarrow> bool" where
  "valid_frame img = (wf_image img \<and> channels img = 3 \<and> 0 < height img \<and> 0 < width img)"

definition valid_plane :: "'a plane \<Rightarrow> bool" where
  "valid_plane p = (wf_plane p \<and> 0 < rows p \<and> 0 < cols p)"

text \<open>
  What the library's documentation promises and the pipeline relies on: on a
  non-empty array of the expected kind each call succeeds, and its result has the
  size of its argument.
\<close>

definition cv2_contract :: "cv2 \<Rightarrow> bool" where
  "cv2_contract cv =
     ((\<forall>p. valid_plane p \<longrightarrow>
         (\<exists>q. equalizeHist cv p = Some q \<and> wf_plane q \<and> rows q = rows p \<and> cols q = cols p)) \<and>
      (\<forall>img code. valid_frame img \<longrightarrow>
         (\<exists>out. cvtColor cv img code = Some out \<and> valid_frame out \<and>
                height out = height img \<and> width out = width img)) \<and>
      (\<forall>img. valid_frame img \<longrightarrow>
         (\<exists>g. cvtColor_BGR2GRAY cv img = Some g \<and> wf_plane g \<and>
              rows g = height img \<and> cols g = width img)) \<and>
      (\<forall>g dx dy. valid_plane g \<and> dx + dy = 1 \<longrightarrow>
         (\<exists>d. Sobel cv g dx dy 3 = Some d \<and> wf_plane d \<and> rows d = rows g \<and> cols d = cols g)))"

subsection \<open>The class \<^verbatim>\<open>LaneIsolator\<close>\<close>

record lane_isolator =
  camera :: "nat option"
  L_THRESHOLD :: "real \<times> real"
  S_THRESHOLD :: "real \<times> real"
  B_THRESHOLD :: "real \<times> real"
  MAG_THRESHOLD :: "real \<times> real"
  DIR_THRESHOLD :: "real \<times> real"

text \<open>\<^verbatim>\<open>__init__(self, lane_camera=None)\<close>.\<close>

definition init :: "nat option \<Rightarrow> lane_isolator" where
  "init lane_camera =
     \<lparr>camera = lane_camera,
      L_THRESHOLD = (120, 255),
      S_THRESHOLD = (105, 255),
      B_THRESHOLD = (180, 210),
      MAG_THRESHOLD = (30, 235),
      DIR_THRESHOLD = (0, pi / 2)\<rparr>"

subsection \<open>Histogram equalisation, in place\<close>

text \<open>
  The caller's frame is an object in a store; \<open>img\<close> is its address. One statement
  \<^verbatim>\<open>img[:, :, k] = cv2.equalizeHist(img[:, :, k])\<close> reads the channel, calls the
  library and writes the answer into the same object.
\<close>

type_synonym ref = nat
type_synonym store = "ref \<Rightarrow> u8 image"

definition eq_channel :: "cv2 \<Rightarrow> ref \<Rightarrow> nat \<Rightarrow> store \<Rightarrow> (error + unit) \<times> store" where
  "eq_channel cv img k st =
     (case thn (get_channel (st img) k) (\<lambda>p.
           thn (cv2_call (equalizeHist cv p)) (\<lambda>q. set_channel (st img) k q)) of
        Inl e \<Rightarrow> (Inl e, st)
      | Inr img' \<Rightarrow> (Inr (), st(img := img')))"

definition eq_histogram :: "cv2 \<Rightarrow> ref \<Rightarrow> store \<Rightarrow> (error + ref) \<times> store" where
  "eq_histogram cv img st =
     (case eq_channel cv img 0 st of
        (Inl e, st1) \<Rightarrow> (Inl e, st1)
      | (Inr _, st1) \<Rightarrow>
     (case eq_channel cv img 1 st1 of
        (Inl e, st2) \<Rightarrow> (Inl e, st2)
      | (Inr _, st2) \<Rightarrow>
     (case eq_channel cv img 2 st2 of
        (Inl e, st3) \<Rightarrow> (Inl e, st3)
      | (Inr _, st3) \<Rightarrow> (Inr img, st3))))"

subsection \<open>Colour selection\<close>

definition color_threshold :: "lane_isolator \<Rightarrow> cv2 \<Rightarrow> u8 image \<Rightarrow> error + u8 plane" where
  "color_threshold self cv img =
     thn (thn (cv2_call (cvtColor cv img COLOR_BGR2LUV)) (\<lambda>a. get_channel a 0)) (\<lambda>l_chan.
     thn (thn (cv2_call (cvtColor cv img COLOR_BGR2HLS)) (\<lambda>a. get_channel a 2)) (\<lambda>s_chan.
     thn (thn (cv2_call (cvtColor cv img COLOR_BGR2Lab)) (\<lambda>a. get_channel a 2)) (\<lambda>b_chan.
     thn (within_threshold u8val l_chan (L_THRESHOLD self)) (\<lambda>l_thresh.
     thn (within_threshold u8val s_chan (S_THRESHOLD self)) (\<lambda>s_thresh.
     thn (within_threshold u8val b_chan (B_THRESHOLD self)) (\<lambda>b_thresh.
     let selection = zeros_like l_chan in
     thn (thn (np_and (np_eq1 l_thresh) (np_eq1 s_thresh)) (\<lambda>ls. np_or ls (np_eq1 b_thresh)))
       (\<lambda>msk. set_ones selection msk)))))))"

subsection \<open>Gradient selection\<close>

text \<open>
  \<^verbatim>\<open>np.square\<close>, \<^verbatim>\<open>np.sqrt\<close>, \<^verbatim>\<open>np.absolute\<close> and \<^verbatim>\<open>np.arctan2\<close> on float64 arrays,
  read on the reals. \<open>arctan2 y x\<close> is the angle of the point \<open>(x, y)\<close> in
  \<open>(-\<pi>, \<pi>]\<close>, and \<open>0\<close> at the origin. The source takes the square root of
  a sum of squares only, which is never negative.
\<close>

definition np_square :: "real plane \<Rightarrow> real plane" where
  "np_square a = \<lparr>rows = rows a, cols = cols a, samples = map (\<lambda>v. v * v) (samples a)\<rparr>"

definition np_sqrt :: "real plane \<Rightarrow> real plane" where
  "np_sqrt a = \<lparr>rows = rows a, cols = cols a, samples = map sqrt (samples a)\<rparr>"

definition np_absolute :: "real plane \<Rightarrow> real plane" where
  "np_absolute a = \<lparr>rows = rows a, cols = cols a, samples = map abs (samples a)\<rparr>"

definition arctan2 :: "real \<Rightarrow> real \<Rightarrow> real" where
  "arctan2 y x =
     (if 0 < x then arctan (y / x)
      else if x < 0 then (if 0 \<le> y then arctan (y / x) + pi else arctan (y / x) - pi)
      else if 0 < y then pi / 2
      else if y < 0 then - (pi / 2)
      else 0)"

text \<open>\<^verbatim>\<open>_gradients(self, gray, kernel=3)\<close>.\<close>

definition gradients :: "cv2 \<Rightarrow> u8 plane \<Rightarrow> nat \<Rightarrow> error + (real plane \<times> real plane)" where
  "gradients cv gray kernel_size =
     thn (cv2_call (Sobel cv gray 1 0 kernel_size)) (\<lambda>grad_x.
     thn (cv2_call (Sobel cv gray 0 1 kernel_size)) (\<lambda>grad_y.
     Inr (grad_x, grad_y)))"

definition gradient_mag :: "cv2 \<Rightarrow> u8 plane \<Rightarrow> error + real plane" where
  "gradient_mag cv gray =
     thn (gradients cv gray 3) (\<lambda>(grad_x, grad_y).
     thn (np_binary (\<lambda>a b. a + b) (np_square grad_x) (np_square grad_y)) (\<lambda>s.
     Inr (np_sqrt s)))"

definition gradient_dir :: "cv2 \<Rightarrow> u8 plane \<Rightarrow> error + real plane" where
  "gradient_dir cv gray =
     thn (gradients cv gray 3) (\<lambda>(grad_x, grad_y).
     let grad_x = np_absolute grad_x;
         grad_y = np_absolute grad_y
     in np_binary arctan2 grad_y grad_x)"

definition gradient_threshold :: "lane_isolator \<Rightarrow> cv2 \<Rightarrow> u8 image \<Rightarrow> error + real plane" where
  "gradient_threshold self cv img =
     thn (cv2_call (cvtColor_BGR2GRAY cv img)) (\<lambda>gray.
     thn (gradient_mag cv gray) (\<lambda>magnitude.
     thn (gradient_dir cv gray) (\<lambda>direction.
     thn (within_threshold f64val magnitude (MAG_THRESHOLD self)) (\<lambda>mag_thresh.
     thn (within_threshold f64val direction (DIR_THRESHOLD self)) (\<lambda>dir_thresh.
     let selection = zeros_like magnitude in
     thn (np_and (np_eq1 mag_thresh) (np_eq1 dir_thresh))
       (\<lambda>msk. set_ones selection msk))))))"

subsection \<open>The entry point\<close>

definition isolate_lines :: "lane_isolator \<Rightarrow> cv2 \<Rightarrow> ref \<Rightarrow> store \<Rightarrow> (error + u8 plane) \<times> store" where
  "isolate_lines self cv img st =
     (case eq_histogram cv img st of
        (Inl e, st') \<Rightarrow> (Inl e, st')
      | (Inr equalized, st') \<Rightarrow>
          (thn (color_threshold self cv (st' equalized)) (\<lambda>color_select.
           thn (gradient_threshold self cv (st' equalized)) (\<lambda>grad_select.
           let selection = zeros_like color_select in
           thn (np_or (np_eq1 color_select) (np_eq1 grad_select))
             (\<lambda>msk. set_ones selection msk))), st'))"

subsection \<open>A small instance of the library interface\<close>

text \<open>
  An executable instance of the interface, for evaluating the pipeline on concrete
  frames. Equalisation is the cumulative-histogram remap, which leaves a plane of
  one single value as it is; the grey conversion is the usual fixed-point luma; the
  derivative is the 3 x 3 Sobel kernel with reflected borders. The three colour
  conversions are simple stand-ins with the library's shapes, not its colorimetry.
  As the library does for these conversion codes, the instance accepts frames of
  three or four channels and ignores the fourth.
\<close>

definition cum_count :: "u8 list \<Rightarrow> u8 \<Rightarrow> nat" where
  "cum_count xs v = length (filter (\<lambda>x. x \<le> v) xs)"

definition demo_equalizeHist :: "u8 plane \<Rightarrow> u8 plane option" where
  "demo_equalizeHist p =
     (if \<not> valid_plane p then None
      else let n = length (samples p);
               lowest = fold min (samples p) 255;
               m = cum_count (samples p) lowest
           in if m = n then Some p
              else Some \<lparr>rows = rows p, cols = cols p,
                        samples = map (\<lambda>v. of_nat (((cum_count (samples p) v - m) * 255) div (n - m)))
                                    (samples p)\<rparr>)"

definition luma :: "u8 \<Rightarrow> u8 \<Rightarrow> u8 \<Rightarrow> u8" where
  "luma b g r = of_nat ((1868 * unat b + 9617 * unat g + 4899 * unat r + 8192) div 16384)"

definition demo_pixel :: "color_code \<Rightarrow> u8 list \<Rightarrow> u8 list" where
  "demo_pixel code px =
     (let b = px ! 0; g = px ! 1; r = px ! 2; hi = max b (max g r); lo = min b (min g r)
      in case code of
           COLOR_BGR2LUV \<Rightarrow> [luma b g r, g, r]
         | COLOR_BGR2HLS \<Rightarrow> [b, of_nat ((unat hi + unat lo + 1) div 2), hi - lo]
         | COLOR_BGR2Lab \<Rightarrow>
             [luma b g r, r, of_nat (min 255 (128 + (unat g + unat r) div 2 - unat b))])"

definition demo_accepts :: "u8 image \<Rightarrow> bool" where
  "demo_accepts img =
     (wf_image img \<and> (channels img = 3 \<or> channels img = 4) \<and> 0 < height img \<and> 0 < width img)"

definition demo_cvtColor :: "u8 image \<Rightarrow> color_code \<Rightarrow> u8 image option" where
  "demo_cvtColor img code =
     (if demo_accepts img
      then Some \<lparr>height = height img, width = width img, channels = 3,
                 pixels = map (demo_pixel code) (pixels img)\<rparr>
      else None)"

definition demo_cvtColor_BGR2GRAY :: "u8 image \<Rightarrow> u8 plane option" where
  "demo_cvtColor_BGR2GRAY img =
     (if demo_accepts img
      then Some \<lparr>rows = height img, cols = width img,
                 samples = map (\<lambda>px. luma (px ! 0) (px ! 1) (px ! 2)) (pixels img)\<rparr>
      else None)"

definition reflect101 :: "nat \<Rightarrow> int \<Rightarrow> nat" where
  "reflect101 n i =
     (if n = 1 then 0
      else if i < 0 then nat (- i)
      else if int n \<le> i then nat (2 * int n - 2 - i)
      else nat i)"

definition sample_at :: "u8 plane \<Rightarrow> int \<Rightarrow> int \<Rightarrow> int" where
  "sample_at g r c =
     int (unat (samples g ! (reflect101 (rows g) r * cols g + reflect101 (cols g) c)))"

definition sobel3 :: "u8 plane \<Rightarrow> nat \<Rightarrow> int \<Rightarrow> int \<Rightarrow> int" where
  "sobel3 g dx r c =
     (if dx = 1
      then (sample_at g (r - 1) (c + 1) - sample_at g (r - 1) (c - 1))
           + 2 * (sample_at g r (c + 1) - sample_at g r (c - 1))
           + (sample_at g (r + 1) (c + 1) - sample_at g (r + 1) (c - 1))
      else (sample_at g (r + 1) (c - 1) - sample_at g (r - 1) (c - 1))
           + 2 * (sample_at g (r + 1) c - sample_at g (r - 1) c)
           + (sample_at g (r + 1) (c + 1) - sample_at g (r - 1) (c + 1)))"

definition demo_Sobel :: "u8 plane \<Rightarrow> nat \<Rightarrow> nat \<Rightarrow> nat \<Rightarrow> real plane option" where
  "demo_Sobel g dx dy ksize =
     (if valid_plane g \<and> dx + dy = 1 \<and> ksize = 3
      then Some \<lparr>rows = rows g, cols = cols g,
                 samples = map (\<lambda>i. real_of_int (sobel3 g dx (int (i div cols g)) (int (i mod cols g))))
                             [0..<rows g * cols g]\<rparr>
      else None)"

definition demo_cv2 :: cv2 where
  "demo_cv2 =
     \<lparr>equalizeHist = demo_equalizeHist,
      cvtColor = demo_cvtColor,
      cvtColor_BGR2GRAY = demo_cvtColor_BGR2GRAY,
      Sobel = demo_Sobel\<rparr>"

text \<open>The number of samples of a mask that are set.\<close>

definition count_set :: "'a::one plane \<Rightarrow> nat" where
  "count_set m = length (filter (\<lambda>v. v = 1) (samples m))"

definition in_range :: "real \<times> real \<Rightarrow> real \<Rightarrow> bool" where
  "in_range threshold x = (fst threshold \<le> x \<and> x \<le> snd threshold)"

text \<open>
  The equalised frame: it has the shape of the raw frame, and each of its first
  three channels is the library's answer for that channel of the raw frame.
\<close>

definition equalized_of :: "cv2 \<Rightarrow> u8 image \<Rightarrow> u8 image \<Rightarrow> bool" where
  "equalized_of cv raw eq =
     (height eq = height raw \<and> width eq = width raw \<and> channels eq = channels raw \<and>
      list_all (\<lambda>k. thn (get_channel raw k) (\<lambda>p. cv2_call (equalizeHist cv p)) = get_channel eq k)
        [0, 1, 2])"

subsection \<open>Concrete arrays\<close>

definition plane_a :: "u8 plane" where
  "plane_a = \<lparr>rows = 2, cols = 2, samples = [100, 120, 255, 0]\<rparr>"

definition plane_b :: "real plane" where
  "plane_b = \<lparr>rows = 1, cols = 3, samples = [0, 1, 1]\<rparr>"

definition plane_c :: "u8 plane" where
  "plane_c = \<lparr>rows = 1, cols = 3, samples = [1, 0, 1]\<rparr>"

definition frame_a :: "u8 image" where
  "frame_a = \<lparr>height = 1, width = 2, channels = 3, pixels = [[10, 200, 220], [40, 40, 40]]\<rparr>"

definition frame_c :: "u8 image" where
  "frame_c = \<lparr>height = 1, width = 3, channels = 3,
              pixels = [[10, 200, 220], [0, 70, 70], [40, 40, 40]]\<rparr>"

definition frame_flat :: "u8 image" where
  "frame_flat = \<lparr>height = 1, width = 1, channels = 3, pixels = [[50, 50, 50]]\<rparr>"




section \<open>Properties\<close>

subsection \<open>Sequencing\<close>

lemma thn_Inr [simp]: "thn (Inr x) f = f x"
  by (simp add: thn_def)

lemma thn_Inl [simp]: "thn (Inl e) f = Inl e"
  by (simp add: thn_def)

subsection \<open>The threshold utility\<close>

lemma within_threshold_eq:
  "within_threshold val a t =
     Inr \<lparr>rows = rows a, cols = cols a,
          samples = map (\<lambda>v. if in_range t (val v) then 1 else 0) (samples a)\<rparr>"
  by (simp add: within_threshold_def np_and_def np_binary_def np_ge_def np_le_def
      set_ones_def zeros_like_def same_shape_def in_range_def Let_def zip_map_map
      map2_map_map zip_same_conv_map cong: if_cong)

subsection \<open>The stages of the pipeline\<close>

lemma cv2_call_Some [simp]: "cv2_call (Some x) = Inr x"
  by (simp add: cv2_call_def)

lemma cv2_call_None [simp]: "cv2_call None = Inl Cv2Error"
  by (simp add: cv2_call_def)

lemma valid_frame_channel:
  "valid_frame img \<Longrightarrow> k < 3 \<Longrightarrow>
     \<exists>p. get_channel img k = Inr p \<and> valid_plane p \<and> rows p = height img \<and> cols p = width img"
  by (simp add: valid_frame_def get_channel_def valid_plane_def wf_plane_def wf_image_def)

lemma set_channel_ok:
  assumes "wf_image img" "k < channels img" "wf_plane q" "rows q = height img" "cols q = width img"
  shows "\<exists>img'. set_channel img k q = Inr img' \<and> wf_image img' \<and>
           height img' = height img \<and> width img' = width img \<and> channels img' = channels img \<and>
           get_channel img' k = Inr q \<and>
           (\<forall>j. j \<noteq> k \<longrightarrow> get_channel img' j = get_channel img j)"
proof -
  from assms have len: "length (samples q) = length (pixels img)"
    by (simp add: wf_image_def wf_plane_def)
  from assms have pxlen: "\<forall>px \<in> set (pixels img). length px = channels img"
    by (auto simp: wf_image_def list_all_iff)
  let ?px = "map2 (\<lambda>px v. px[k := v]) (pixels img) (samples q)"
  have set: "set_channel img k q = Inr (img\<lparr>pixels := ?px\<rparr>)"
    using assms len by (simp add: set_channel_def)
  have v: "wf_image (img\<lparr>pixels := ?px\<rparr>)"
    using assms len pxlen
    by (auto simp: wf_image_def list_all_iff dest!: set_zip_leftD)
  have same: "map (\<lambda>px. px ! k) ?px = samples q"
    using len pxlen assms(2)
    by (auto simp: list_eq_iff_nth_eq)
  have other: "j \<noteq> k \<Longrightarrow> map (\<lambda>px. px ! j) ?px = map (\<lambda>px. px ! j) (pixels img)" for j
    using len by (auto simp: list_eq_iff_nth_eq)
  have g1: "get_channel (img\<lparr>pixels := ?px\<rparr>) k = Inr q"
    using assms same by (simp add: get_channel_def)
  have g2: "j \<noteq> k \<Longrightarrow> get_channel (img\<lparr>pixels := ?px\<rparr>) j = get_channel img j" for j
    using other[of j] by (simp add: get_channel_def)
  show ?thesis using set v g1 g2 by simp
qed

lemma eq_channel_ok:
  assumes "cv2_contract cv" "valid_frame raw" "st img = raw" "k < 3"
  shows "\<exists>p q img'. get_channel raw k = Inr p \<and> equalizeHist cv p = Some q \<and>
           eq_channel cv img k st = (Inr (), st(img := img')) \<and> valid_frame img' \<and>
           height img' = height raw \<and> width img' = width raw \<and>
           get_channel img' k = Inr q \<and>
           (\<forall>j. j \<noteq> k \<longrightarrow> get_channel img' j = get_channel raw j)"
proof -
  from valid_frame_channel[OF assms(2,4)] obtain p where
    p: "get_channel raw k = Inr p" "valid_plane p" "rows p = height raw" "cols p = width raw"
    by blast
  from assms(1) p(2) obtain q where
    q: "equalizeHist cv p = Some q" "wf_plane q" "rows q = rows p" "cols q = cols p"
    unfolding cv2_contract_def by blast
  have wf: "wf_image raw" and k: "k < channels raw"
    using assms(2,4) by (simp_all add: valid_frame_def)
  from set_channel_ok[OF wf k q(2)] q p obtain img' where
    i: "set_channel raw k q = Inr img'" "wf_image img'"
       "height img' = height raw" "width img' = width raw" "channels img' = channels raw"
       "get_channel img' k = Inr q"
       "\<forall>j. j \<noteq> k \<longrightarrow> get_channel img' j = get_channel raw j"
    by auto
  have v: "valid_frame img'"
    using i assms(2) by (simp add: valid_frame_def)
  have "eq_channel cv img k st = (Inr (), st(img := img'))"
    by (simp add: eq_channel_def assms(3) p q i)
  with p q i v show ?thesis by blast
qed

lemma eq_histogram_ok:
  assumes "cv2_contract cv" "valid_frame (st img)"
  shows "\<exists>eq. eq_histogram cv img st = (Inr img, st(img := eq)) \<and> valid_frame eq \<and>
           equalized_of cv (st img) eq"
proof -
  have e0: "st img = st img" by simp
  from eq_channel_ok[where st=st and img=img and k=0, OF assms e0] obtain p0 q0 i0 where
    s0: "get_channel (st img) 0 = Inr p0" "equalizeHist cv p0 = Some q0"
        "eq_channel cv img 0 st = (Inr (), st(img := i0))" "valid_frame i0"
        "height i0 = height (st img)" "width i0 = width (st img)" "get_channel i0 0 = Inr q0"
        "\<forall>j. j \<noteq> 0 \<longrightarrow> get_channel i0 j = get_channel (st img) j"
    by auto
  have e1: "(st(img := i0)) img = i0" by simp
  from eq_channel_ok[where st="st(img := i0)" and img=img and k=1, OF assms(1) s0(4) e1] obtain p1 q1 i1 where
    s1: "get_channel i0 1 = Inr p1" "equalizeHist cv p1 = Some q1"
        "eq_channel cv img 1 (st(img := i0)) = (Inr (), st(img := i1))" "valid_frame i1"
        "height i1 = height i0" "width i1 = width i0" "get_channel i1 1 = Inr q1"
        "\<forall>j. j \<noteq> 1 \<longrightarrow> get_channel i1 j = get_channel i0 j"
    by auto
  have e2: "(st(img := i1)) img = i1" by simp
  from eq_channel_ok[where st="st(img := i1)" and img=img and k=2, OF assms(1) s1(4) e2] obtain p2 q2 i2 where
    s2: "get_channel i1 2 = Inr p2" "equalizeHist cv p2 = Some q2"
        "eq_channel cv img 2 (st(img := i1)) = (Inr (), st(img := i2))" "valid_frame i2"
        "height i2 = height i1" "width i2 = width i1" "get_channel i2 2 = Inr q2"
        "\<forall>j. j \<noteq> 2 \<longrightarrow> get_channel i2 j = get_channel i1 j"
    by auto
  have r: "eq_histogram cv img st = (Inr img, st(img := i2))"
    unfolding eq_histogram_def
    by (simp only: s0(3) s1(3) s2(3) prod.case sum.case)
  have g01: "get_channel i0 1 = get_channel (st img) 1" using s0(8) by simp
  have g02: "get_channel i0 2 = get_channel (st img) 2" using s0(8) by simp
  have g12: "get_channel i1 2 = get_channel i0 2" using s1(8) by simp
  have g10: "get_channel i1 0 = get_channel i0 0" using s1(8) by simp
  have g20: "get_channel i2 0 = get_channel i1 0" using s2(8) by simp
  have g21: "get_channel i2 1 = get_channel i1 1" using s2(8) by simp
  have c0: "thn (get_channel (st img) 0) (\<lambda>p. cv2_call (equalizeHist cv p)) = get_channel i2 0"
    using s0(1,2,7) g20 g10 by simp
  have c1: "thn (get_channel (st img) 1) (\<lambda>p. cv2_call (equalizeHist cv p)) = get_channel i2 1"
  proof -
    have "get_channel (st img) 1 = Inr p1" using s1(1) g01 by simp
    then show ?thesis using s1(2,7) g21 by simp
  qed
  have c2: "thn (get_channel (st img) 2) (\<lambda>p. cv2_call (equalizeHist cv p)) = get_channel i2 2"
  proof -
    have "get_channel (st img) 2 = Inr p2" using s2(1) g02 g12 by simp
    then show ?thesis using s2(2,7) by simp
  qed
  have ch: "channels i2 = channels (st img)"
    using s2(4) assms(2) by (simp add: valid_frame_def)
  have eqo: "equalized_of cv (st img) i2"
    unfolding equalized_of_def using s0(5,6) s1(5,6) s2(5,6) ch c0 c1 c2 by simp
  show ?thesis using r s2(4) eqo by blast
qed

lemma color_threshold_eq:
  assumes luv: "cvtColor cv img COLOR_BGR2LUV = Some luv"
      and hls: "cvtColor cv img COLOR_BGR2HLS = Some hls"
      and lab: "cvtColor cv img COLOR_BGR2Lab = Some lab"
      and v: "valid_frame luv" "valid_frame hls" "valid_frame lab"
      and h: "height luv = h" "height hls = h" "height lab = h"
      and w: "width luv = w" "width hls = w" "width lab = w"
  shows "color_threshold self cv img =
           Inr \<lparr>rows = h, cols = w,
                samples = map (\<lambda>i. if (in_range (L_THRESHOLD self) (u8val (pixels luv ! i ! 0)) \<and>
                                       in_range (S_THRESHOLD self) (u8val (pixels hls ! i ! 2))) \<or>
                                      in_range (B_THRESHOLD self) (u8val (pixels lab ! i ! 2))
                                   then 1 else 0) [0..<h * w]\<rparr>"
proof -
  have len: "length (pixels luv) = h * w" "length (pixels hls) = h * w" "length (pixels lab) = h * w"
    using v h w by (simp_all add: valid_frame_def wf_image_def)
  have ch: "channels luv = 3" "channels hls = 3" "channels lab = 3"
    using v by (simp_all add: valid_frame_def)
  show ?thesis
    unfolding color_threshold_def
    by (simp add: luv hls lab get_channel_def ch h w within_threshold_eq np_and_def np_or_def
        np_binary_def np_eq1_def same_shape_def len set_ones_def zeros_like_def Let_def)
       (auto simp: list_eq_iff_nth_eq len)
qed



lemma gradient_mag_eq:
  assumes gx: "Sobel cv gray 1 0 3 = Some gx" and gy: "Sobel cv gray 0 1 3 = Some gy"
      and sh: "same_shape gx gy"
  shows "gradient_mag cv gray =
           Inr \<lparr>rows = rows gx, cols = cols gx,
                samples = map2 (\<lambda>x y. sqrt (x * x + y * y)) (samples gx) (samples gy)\<rparr>"
  using sh gx gy
  by (simp add: gradient_mag_def gradients_def np_binary_def np_square_def np_sqrt_def
      same_shape_def zip_map_map map2_map_map split_def)

lemma gradient_dir_eq:
  assumes gx: "Sobel cv gray 1 0 3 = Some gx" and gy: "Sobel cv gray 0 1 3 = Some gy"
      and sh: "same_shape gx gy"
  shows "gradient_dir cv gray =
           Inr \<lparr>rows = rows gx, cols = cols gx,
                samples = map2 (\<lambda>x y. arctan2 \<bar>y\<bar> \<bar>x\<bar>) (samples gx) (samples gy)\<rparr>"
  using sh gx gy
  by (auto simp: gradient_dir_def gradients_def np_binary_def np_absolute_def
      same_shape_def Let_def list_eq_iff_nth_eq)

lemma gradient_threshold_eq:
  assumes gray: "cvtColor_BGR2GRAY cv img = Some gray"
      and gx: "Sobel cv gray 1 0 3 = Some gx" and gy: "Sobel cv gray 0 1 3 = Some gy"
      and sh: "same_shape gx gy"
  shows "gradient_threshold self cv img =
           Inr \<lparr>rows = rows gx, cols = cols gx,
                samples = map2 (\<lambda>x y. if in_range (MAG_THRESHOLD self) (sqrt (x * x + y * y)) \<and>
                                         in_range (DIR_THRESHOLD self) (arctan2 \<bar>y\<bar> \<bar>x\<bar>)
                                      then 1 else 0) (samples gx) (samples gy)\<rparr>"
  using sh
  by (auto simp: gradient_threshold_def gray gradient_mag_eq [OF gx gy sh]
      gradient_dir_eq [OF gx gy sh] within_threshold_eq np_and_def np_binary_def np_eq1_def
      same_shape_def set_ones_def zeros_like_def Let_def f64val_def list_eq_iff_nth_eq)

lemma isolate_lines_eq:
  assumes eq: "eq_histogram cv img st = (Inr img, st')"
      and col: "color_threshold self cv (st' img) = Inr col"
      and grad: "gradient_threshold self cv (st' img) = Inr grad"
      and sh: "same_shape col grad"
  shows "isolate_lines self cv img st =
           (Inr \<lparr>rows = rows col, cols = cols col,
                 samples = map2 (\<lambda>c g. if c = 1 \<or> g = 1 then 1 else 0) (samples col) (samples grad)\<rparr>,
            st')"
  using sh
  by (auto simp: isolate_lines_def eq col grad np_or_def np_binary_def np_eq1_def
      same_shape_def set_ones_def zeros_like_def Let_def list_eq_iff_nth_eq)

lemma demo_contract: "cv2_contract demo_cv2"
  unfolding cv2_contract_def
proof (intro conjI allI impI)
  fix p :: "u8 plane" assume "valid_plane p"
  then show "\<exists>q. equalizeHist demo_cv2 p = Some q \<and> wf_plane q \<and> rows q = rows p \<and> cols q = cols p"
    by (auto simp: demo_cv2_def demo_equalizeHist_def Let_def valid_plane_def wf_plane_def)
next
  fix img :: "u8 image" and code assume "valid_frame img"
  then show "\<exists>out. cvtColor demo_cv2 img code = Some out \<and> valid_frame out \<and>
                height out = height img \<and> width out = width img"
    by (auto simp: demo_cv2_def demo_cvtColor_def demo_accepts_def valid_frame_def wf_image_def
        list_all_iff demo_pixel_def Let_def split: color_code.splits)
next
  fix img :: "u8 image" assume "valid_frame img"
  then show "\<exists>g. cvtColor_BGR2GRAY demo_cv2 img = Some g \<and> wf_plane g \<and>
                rows g = height img \<and> cols g = width img"
    by (auto simp: demo_cv2_def demo_cvtColor_BGR2GRAY_def demo_accepts_def valid_frame_def
        wf_image_def wf_plane_def)
next
  fix g :: "u8 plane" and dx dy :: nat assume "valid_plane g \<and> dx + dy = 1"
  then show "\<exists>d. Sobel demo_cv2 g dx dy 3 = Some d \<and> wf_plane d \<and> rows d = rows g \<and> cols d = cols g"
    by (auto simp: demo_cv2_def demo_Sobel_def valid_plane_def wf_plane_def)
qed

lemma color_threshold_ok:
  assumes c: "cv2_contract cv" and v: "valid_frame img"
  shows "\<exists>luv hls lab.
           cvtColor cv img COLOR_BGR2LUV = Some luv \<and> cvtColor cv img COLOR_BGR2HLS = Some hls \<and>
           cvtColor cv img COLOR_BGR2Lab = Some lab \<and>
           color_threshold self cv img =
             Inr \<lparr>rows = height img, cols = width img,
                  samples = map (\<lambda>i. if (in_range (L_THRESHOLD self) (u8val (pixels luv ! i ! 0)) \<and>
                                         in_range (S_THRESHOLD self) (u8val (pixels hls ! i ! 2))) \<or>
                                        in_range (B_THRESHOLD self) (u8val (pixels lab ! i ! 2))
                                     then 1 else 0) [0..<height img * width img]\<rparr>"
proof -
  from c v obtain luv where luv: "cvtColor cv img COLOR_BGR2LUV = Some luv" "valid_frame luv"
      "height luv = height img" "width luv = width img"
    unfolding cv2_contract_def by blast
  from c v obtain hls where hls: "cvtColor cv img COLOR_BGR2HLS = Some hls" "valid_frame hls"
      "height hls = height img" "width hls = width img"
    unfolding cv2_contract_def by blast
  from c v obtain lab where lab: "cvtColor cv img COLOR_BGR2Lab = Some lab" "valid_frame lab"
      "height lab = height img" "width lab = width img"
    unfolding cv2_contract_def by blast
  from color_threshold_eq [OF luv(1) hls(1) lab(1) luv(2) hls(2) lab(2) luv(3) hls(3) lab(3)
      luv(4) hls(4) lab(4)] luv(1) hls(1) lab(1)
  show ?thesis by blast
qed

lemma gradient_threshold_ok:
  assumes c: "cv2_contract cv" and v: "valid_frame img"
  shows "\<exists>gray gx gy.
           cvtColor_BGR2GRAY cv img = Some gray \<and>
           Sobel cv gray 1 0 3 = Some gx \<and> Sobel cv gray 0 1 3 = Some gy \<and>
           length (samples gx) = height img * width img \<and>
           length (samples gy) = height img * width img \<and>
           rows gx = height img \<and> cols gx = width img \<and> same_shape gx gy \<and>
           gradient_threshold self cv img =
             Inr \<lparr>rows = height img, cols = width img,
                  samples = map2 (\<lambda>x y. if in_range (MAG_THRESHOLD self) (sqrt (x * x + y * y)) \<and>
                                           in_range (DIR_THRESHOLD self) (arctan2 \<bar>y\<bar> \<bar>x\<bar>)
                                        then 1 else 0) (samples gx) (samples gy)\<rparr>"
proof -
  from c v obtain gray where gray: "cvtColor_BGR2GRAY cv img = Some gray" "wf_plane gray"
      "rows gray = height img" "cols gray = width img"
    unfolding cv2_contract_def by blast
  have vg: "valid_plane gray"
    using gray v by (simp add: valid_plane_def valid_frame_def)
  have "\<exists>d. Sobel cv gray 1 0 3 = Some d \<and> wf_plane d \<and> rows d = rows gray \<and> cols d = cols gray"
    using c vg unfolding cv2_contract_def by simp
  then obtain gx where gx: "Sobel cv gray 1 0 3 = Some gx" "wf_plane gx"
      "rows gx = rows gray" "cols gx = cols gray"
    by blast
  have "\<exists>d. Sobel cv gray 0 1 3 = Some d \<and> wf_plane d \<and> rows d = rows gray \<and> cols d = cols gray"
    using c vg unfolding cv2_contract_def by simp
  then obtain gy where gy: "Sobel cv gray 0 1 3 = Some gy" "wf_plane gy"
      "rows gy = rows gray" "cols gy = cols gray"
    by blast
  have sh: "same_shape gx gy"
    using gx gy by (simp add: same_shape_def wf_plane_def)
  have lx: "length (samples gx) = height img * width img"
    using gx gray by (simp add: wf_plane_def)
  have ly: "length (samples gy) = height img * width img"
    using gy gray by (simp add: wf_plane_def)
  from gradient_threshold_eq [OF gray(1) gx(1) gy(1) sh, of self] gray(1,3,4) gx gy lx ly sh
  show ?thesis by auto
qed

lemma color_threshold_shape:
  assumes c: "cv2_contract cv" and v: "valid_frame img"
  shows "\<exists>col. color_threshold self cv img = Inr col \<and>
           rows col = height img \<and> cols col = width img \<and>
           length (samples col) = height img * width img \<and> set (samples col) \<subseteq> {0, 1}"
  using color_threshold_ok [OF c v, of self]
  by (elim exE conjE) auto

lemma gradient_threshold_shape:
  assumes c: "cv2_contract cv" and v: "valid_frame img"
  shows "\<exists>grad. gradient_threshold self cv img = Inr grad \<and>
           rows grad = height img \<and> cols grad = width img \<and>
           length (samples grad) = height img * width img \<and> set (samples grad) \<subseteq> {0, 1}"
  using gradient_threshold_ok [OF c v, of self]
  by (elim exE conjE) (auto split: if_splits)

lemma isolate_lines_ok:
  assumes c: "cv2_contract cv" and v: "valid_frame (st img)"
  shows "\<exists>eq col grad.
           eq_histogram cv img st = (Inr img, st(img := eq)) \<and> valid_frame eq \<and>
           equalized_of cv (st img) eq \<and>
           color_threshold self cv eq = Inr col \<and>
           gradient_threshold self cv eq = Inr grad \<and>
           rows col = height (st img) \<and> cols col = width (st img) \<and>
           rows grad = height (st img) \<and> cols grad = width (st img) \<and>
           length (samples col) = height (st img) * width (st img) \<and>
           length (samples grad) = height (st img) * width (st img) \<and>
           set (samples col) \<subseteq> {0, 1} \<and> set (samples grad) \<subseteq> {0, 1} \<and>
           isolate_lines self cv img st =
             (Inr \<lparr>rows = height (st img), cols = width (st img),
                   samples = map2 (\<lambda>c g. if c = 1 \<or> g = 1 then 1 else 0) (samples col) (samples grad)\<rparr>,
              st(img := eq))"
proof -
  from eq_histogram_ok [where st=st and img=img, OF c v] obtain eq where
    eq: "eq_histogram cv img st = (Inr img, st(img := eq))" "valid_frame eq"
        "equalized_of cv (st img) eq"
    by blast
  have dims: "height eq = height (st img)" "width eq = width (st img)"
    using eq(3) by (simp_all add: equalized_of_def)
  from color_threshold_shape [OF c eq(2), of self] obtain col where
    col: "color_threshold self cv eq = Inr col" "rows col = height eq" "cols col = width eq"
         "length (samples col) = height eq * width eq" "set (samples col) \<subseteq> {0, 1}"
    by blast
  from gradient_threshold_shape [OF c eq(2), of self] obtain grad where
    grad: "gradient_threshold self cv eq = Inr grad" "rows grad = height eq" "cols grad = width eq"
         "length (samples grad) = height eq * width eq" "set (samples grad) \<subseteq> {0, 1}"
    by blast
  have sh: "same_shape col grad"
    using col grad by (simp add: same_shape_def)
  have e': "eq_histogram cv img st = (Inr img, st(img := eq))"
    and c': "color_threshold self cv ((st(img := eq)) img) = Inr col"
    and g': "gradient_threshold self cv ((st(img := eq)) img) = Inr grad"
    using eq col grad by simp_all
  from isolate_lines_eq [where st'="st(img := eq)" and st=st and img=img, OF e' c' g' sh] eq col grad dims
  show ?thesis by auto
qed

lemma init_thresholds:
  "L_THRESHOLD (init cam) = (120, 255)" "S_THRESHOLD (init cam) = (105, 255)"
  "B_THRESHOLD (init cam) = (180, 210)" "MAG_THRESHOLD (init cam) = (30, 235)"
  "DIR_THRESHOLD (init cam) = (0, pi / 2)"
  by (simp_all add: init_def)








text \<open>Unfolding the pipeline and the library instance on concrete frames.\<close>

lemma upt_small: "[0..<3] = [0, 1, 2]" "[0..<2] = [0, 1]"
  by (simp_all add: upt_rec)

lemma sqrt_le_iff: "0 \<le> b \<Longrightarrow> 0 \<le> s \<Longrightarrow> (sqrt s \<le> b) = (s \<le> b * b)"
  by (metis abs_of_nonneg real_sqrt_abs2 real_sqrt_le_iff)

lemma le_sqrt_iff: "0 \<le> a \<Longrightarrow> 0 \<le> s \<Longrightarrow> (a \<le> sqrt s) = (a * a \<le> s)"
  by (metis abs_of_nonneg real_sqrt_abs2 real_sqrt_le_iff)

lemmas demo_defs = demo_cv2_def demo_equalizeHist_def demo_cvtColor_def demo_cvtColor_BGR2GRAY_def
  demo_Sobel_def demo_accepts_def demo_pixel_def luma_def cum_count_def sobel3_def sample_at_def
  reflect101_def valid_plane_def wf_plane_def wf_image_def valid_frame_def

lemmas pipeline_defs = isolate_lines_def eq_histogram_def eq_channel_def get_channel_def
  set_channel_def color_threshold_def gradient_threshold_def gradient_mag_def gradient_dir_def
  gradients_def np_binary_def np_and_def np_or_def np_eq1_def np_square_def np_sqrt_def
  np_absolute_def set_ones_def zeros_like_def same_shape_def init_def in_range_def u8val_def
  f64val_def within_threshold_eq arctan2_def Let_def upt_small sqrt_le_iff le_sqrt_iff

subsection \<open>The claims about the threshold utility\<close>

text \<open>
  C4. For every single-channel map, of 8-bit or of floating-point samples (\<open>val\<close>
  is the reading of its samples as numbers), and every range \<open>[low, high]\<close>,
  \<open>_within_threshold\<close> returns a map of the same shape whose element is 1 where
  the input element \<open>v\<close> satisfies \<open>low \<le> v \<le> high\<close>, bounds included, and 0
  elsewhere; 0 and 1 are different samples, so an output element is 1 if and only
  if the input element is in the range.
\<close>

theorem within_threshold_inclusive:
  fixes val :: "'a::zero_neq_one \<Rightarrow> real"
  shows "within_threshold val a (low, high) =
           Inr \<lparr>rows = rows a, cols = cols a,
                samples = map (\<lambda>v. if low \<le> val v \<and> val v \<le> high then 1 else 0) (samples a)\<rparr>
         \<and> (0::'a) \<noteq> 1"
  by (simp add: within_threshold_eq in_range_def)

theorem within_threshold_inclusive_witness:
  "within_threshold u8val plane_a (120, 255) = Inr \<lparr>rows = 2, cols = 2, samples = [0, 1, 1, 0]\<rparr>
   \<and> within_threshold f64val plane_b (1 / 2, 1) = Inr \<lparr>rows = 1, cols = 3, samples = [0, 1, 1]\<rparr>"
  using within_threshold_inclusive [of u8val plane_a 120 255]
    within_threshold_inclusive [of f64val plane_b "1 / 2" 1]
  by (simp add: plane_a_def plane_b_def u8val_def f64val_def)

text \<open>
  C5. For every map and every two ranges with \<open>low2 \<le> low1\<close> and
  \<open>high1 \<le> high2\<close>, the wider range \<open>[low2, high2]\<close> sets at least as many
  pixels as the narrower \<open>[low1, high1]\<close>, and every pixel set under the narrower
  range is set under the wider one.
\<close>

theorem within_threshold_widening:
  fixes val :: "'a::zero_neq_one \<Rightarrow> real"
  assumes "low2 \<le> low1" and "high1 \<le> high2"
  shows "\<exists>narrow wide.
           within_threshold val m (low1, high1) = Inr narrow \<and>
           within_threshold val m (low2, high2) = Inr wide \<and>
           count_set narrow \<le> count_set wide \<and>
           (\<forall>i < length (samples m). samples narrow ! i = 1 \<longrightarrow> samples wide ! i = 1)"
proof -
  let ?n = "\<lambda>v. if in_range (low1, high1) (val v) then 1 else (0::'a)"
  let ?w = "\<lambda>v. if in_range (low2, high2) (val v) then 1 else (0::'a)"
  have imp: "in_range (low1, high1) x \<Longrightarrow> in_range (low2, high2) x" for x
    using assms by (simp add: in_range_def)
  have "length (filter (\<lambda>v. ?n v = 1) (samples m)) \<le> length (filter (\<lambda>v. ?w v = 1) (samples m))"
  proof (induction "samples m" arbitrary: m)
    case Nil
    then show ?case by simp
  next
    case (Cons v vs)
    from Cons(1) [of "m\<lparr>samples := vs\<rparr>"] Cons(2) [symmetric] show ?case
      by (auto dest: imp)
  qed
  then have cnt: "count_set \<lparr>rows = rows m, cols = cols m, samples = map ?n (samples m)\<rparr>
      \<le> count_set \<lparr>rows = rows m, cols = cols m, samples = map ?w (samples m)\<rparr>"
    by (simp add: count_set_def filter_map o_def)
  have pt: "\<forall>i < length (samples m). map ?n (samples m) ! i = 1 \<longrightarrow> map ?w (samples m) ! i = 1"
    by (auto dest: imp)
  show ?thesis
    using cnt pt by (simp add: within_threshold_eq)
qed

theorem within_threshold_widening_witness:
  "(100::real) \<le> 120 \<and> (200::real) \<le> 255 \<and>
   (\<exists>narrow wide.
      within_threshold u8val plane_a (120, 200) = Inr narrow \<and>
      within_threshold u8val plane_a (100, 255) = Inr wide \<and>
      count_set narrow \<le> count_set wide \<and>
      (\<forall>i < length (samples plane_a). samples narrow ! i = 1 \<longrightarrow> samples wide ! i = 1))"
proof -
  have a: "(100::real) \<le> 120" and b: "(200::real) \<le> 255"
    by simp_all
  from within_threshold_widening [OF a b, of u8val plane_a] a b show ?thesis
    by blast
qed

text \<open>
  C7, as stated, fails: a sample 0 lies in the range \<open>[0, 1]\<close> as well, so the
  range \<open>[0, 1]\<close> turns it into 1. The map \<open>[1, 0, 1]\<close> comes back as \<open>[1, 1, 1]\<close>.
\<close>

theorem within_threshold_binary_counterexample:
  "set (samples plane_c) \<subseteq> {0, 1} \<and>
   within_threshold u8val plane_c (0, 1) = Inr \<lparr>rows = 1, cols = 3, samples = [1, 1, 1]\<rparr> \<and>
   within_threshold u8val plane_c (0, 1) \<noteq> Inr plane_c"
  by (simp add: within_threshold_eq in_range_def plane_c_def u8val_def)

text \<open>
  C7, amended. For every map whose samples are all 0 or 1, of 8-bit or of
  floating-point samples, \<open>_within_threshold\<close> with the range \<open>[0, 1]\<close> returns the
  map of the same shape with every sample 1; it is with the range \<open>[1, 1]\<close> that the
  map comes back unchanged.
\<close>

theorem within_threshold_binary:
  assumes "set (samples m8) \<subseteq> {0, 1}" and "set (samples mf) \<subseteq> {0, 1}"
  shows "within_threshold u8val m8 (0, 1) =
           Inr \<lparr>rows = rows m8, cols = cols m8, samples = map (\<lambda>_. 1) (samples m8)\<rparr> \<and>
         within_threshold f64val mf (0, 1) =
           Inr \<lparr>rows = rows mf, cols = cols mf, samples = map (\<lambda>_. 1) (samples mf)\<rparr> \<and>
         within_threshold u8val m8 (1, 1) = Inr m8 \<and>
         within_threshold f64val mf (1, 1) = Inr mf"
proof -
  have a: "map (\<lambda>v. if in_range (0, 1) (u8val v) then 1 else 0) (samples m8) = map (\<lambda>_. 1) (samples m8)"
    using assms(1) by (intro map_cong) (auto simp: in_range_def u8val_def)
  have b: "map (\<lambda>v. if in_range (0, 1) (f64val v) then 1 else 0) (samples mf) = map (\<lambda>_. 1) (samples mf)"
    using assms(2) by (intro map_cong) (auto simp: in_range_def f64val_def)
  have c: "map (\<lambda>v. if in_range (1, 1) (u8val v) then 1 else 0) (samples m8) = samples m8"
    using assms(1) by (intro map_idI) (auto simp: in_range_def u8val_def)
  have d: "map (\<lambda>v. if in_range (1, 1) (f64val v) then 1 else 0) (samples mf) = samples mf"
    using assms(2) by (intro map_idI) (auto simp: in_range_def f64val_def)
  show ?thesis
    by (simp add: within_threshold_eq a b c d)
qed

theorem within_threshold_binary_witness:
  "set (samples plane_c) \<subseteq> {0, 1} \<and> set (samples plane_b) \<subseteq> {0, 1} \<and>
   within_threshold u8val plane_c (0, 1) = Inr \<lparr>rows = 1, cols = 3, samples = [1, 1, 1]\<rparr> \<and>
   within_threshold f64val plane_b (0, 1) = Inr \<lparr>rows = 1, cols = 3, samples = [1, 1, 1]\<rparr> \<and>
   within_threshold u8val plane_c (1, 1) = Inr plane_c \<and>
   within_threshold f64val plane_b (1, 1) = Inr plane_b"
proof -
  have a: "set (samples plane_c) \<subseteq> {0, 1}" by (simp add: plane_c_def)
  have b: "set (samples plane_b) \<subseteq> {0, 1}" by (simp add: plane_b_def)
  from within_threshold_binary [OF a b] a b show ?thesis
    by (simp add: plane_c_def plane_b_def)
qed

subsection \<open>The claims about the pipeline\<close>



text \<open>
  C2. For every equalised 3-channel frame, the colour-selection mask of the default
  configuration has a 1 at a pixel exactly when (its lightness is within
  \<open>[120, 255]\<close> and its saturation is within \<open>[105, 255]\<close>) or its chrominance is
  within \<open>[180, 210]\<close>, and 0 elsewhere; in particular a pixel whose chrominance is
  in range is set even if lightness and saturation are both out of range.
\<close>

theorem color_threshold_rule:
  assumes "cv2_contract cv" and "valid_frame img"
  shows "\<exists>luv hls lab m.
           cvtColor cv img COLOR_BGR2LUV = Some luv \<and>
           cvtColor cv img COLOR_BGR2HLS = Some hls \<and>
           cvtColor cv img COLOR_BGR2Lab = Some lab \<and>
           color_threshold (init cam) cv img = Inr m \<and>
           rows m = height img \<and> cols m = width img \<and>
           samples m =
             map (\<lambda>i. if (120 \<le> u8val (pixels luv ! i ! 0) \<and> u8val (pixels luv ! i ! 0) \<le> 255 \<and>
                            105 \<le> u8val (pixels hls ! i ! 2) \<and> u8val (pixels hls ! i ! 2) \<le> 255) \<or>
                           (180 \<le> u8val (pixels lab ! i ! 2) \<and> u8val (pixels lab ! i ! 2) \<le> 210)
                        then 1 else 0) [0..<height img * width img] \<and>
           (\<forall>i < height img * width img.
              180 \<le> u8val (pixels lab ! i ! 2) \<and> u8val (pixels lab ! i ! 2) \<le> 210 \<and>
              \<not> (120 \<le> u8val (pixels luv ! i ! 0) \<and> u8val (pixels luv ! i ! 0) \<le> 255) \<and>
              \<not> (105 \<le> u8val (pixels hls ! i ! 2) \<and> u8val (pixels hls ! i ! 2) \<le> 255)
              \<longrightarrow> samples m ! i = 1)"
proof -
  from color_threshold_ok [OF assms, of "init cam"] obtain luv hls lab where
    conv: "cvtColor cv img COLOR_BGR2LUV = Some luv" "cvtColor cv img COLOR_BGR2HLS = Some hls"
          "cvtColor cv img COLOR_BGR2Lab = Some lab"
    and ct: "color_threshold (init cam) cv img =
             Inr \<lparr>rows = height img, cols = width img,
                  samples = map (\<lambda>i. if (in_range (L_THRESHOLD (init cam)) (u8val (pixels luv ! i ! 0)) \<and>
                                         in_range (S_THRESHOLD (init cam)) (u8val (pixels hls ! i ! 2))) \<or>
                                        in_range (B_THRESHOLD (init cam)) (u8val (pixels lab ! i ! 2))
                                     then 1 else 0) [0..<height img * width img]\<rparr>"
    by (elim exE conjE)
  show ?thesis
    apply (rule exI [of _ luv], rule exI [of _ hls], rule exI [of _ lab])
    apply (simp add: conv ct init_thresholds in_range_def conj_assoc)
    done
qed

theorem color_threshold_rule_witness:
  "cv2_contract demo_cv2 \<and> valid_frame frame_c \<and>
   (\<exists>luv hls lab m.
      cvtColor demo_cv2 frame_c COLOR_BGR2LUV = Some luv \<and>
      cvtColor demo_cv2 frame_c COLOR_BGR2HLS = Some hls \<and>
      cvtColor demo_cv2 frame_c COLOR_BGR2Lab = Some lab \<and>
      color_threshold (init None) demo_cv2 frame_c = Inr m \<and>
      rows m = height frame_c \<and> cols m = width frame_c \<and>
      samples m =
        map (\<lambda>i. if (120 \<le> u8val (pixels luv ! i ! 0) \<and> u8val (pixels luv ! i ! 0) \<le> 255 \<and>
                       105 \<le> u8val (pixels hls ! i ! 2) \<and> u8val (pixels hls ! i ! 2) \<le> 255) \<or>
                      (180 \<le> u8val (pixels lab ! i ! 2) \<and> u8val (pixels lab ! i ! 2) \<le> 210)
                   then 1 else 0) [0..<height frame_c * width frame_c] \<and>
      (\<forall>i < height frame_c * width frame_c.
         180 \<le> u8val (pixels lab ! i ! 2) \<and> u8val (pixels lab ! i ! 2) \<le> 210 \<and>
         \<not> (120 \<le> u8val (pixels luv ! i ! 0) \<and> u8val (pixels luv ! i ! 0) \<le> 255) \<and>
         \<not> (105 \<le> u8val (pixels hls ! i ! 2) \<and> u8val (pixels hls ! i ! 2) \<le> 255)
         \<longrightarrow> samples m ! i = 1) \<and>
      1 < height frame_c * width frame_c \<and>
      pixels luv ! 1 ! 0 = 62 \<and> pixels hls ! 1 ! 2 = 70 \<and> pixels lab ! 1 ! 2 = 198 \<and>
      180 \<le> u8val (pixels lab ! 1 ! 2) \<and> u8val (pixels lab ! 1 ! 2) \<le> 210 \<and>
      \<not> (120 \<le> u8val (pixels luv ! 1 ! 0) \<and> u8val (pixels luv ! 1 ! 0) \<le> 255) \<and>
      \<not> (105 \<le> u8val (pixels hls ! 1 ! 2) \<and> u8val (pixels hls ! 1 ! 2) \<le> 255) \<and>
      samples m ! 1 = 1) \<and>
   color_threshold (init None) demo_cv2 frame_c = Inr \<lparr>rows = 1, cols = 3, samples = [1, 1, 0]\<rparr>"
proof -
  have v: "valid_frame frame_c"
    by (simp add: valid_frame_def wf_image_def frame_c_def)
  have ev: "color_threshold (init None) demo_cv2 frame_c = Inr \<lparr>rows = 1, cols = 3, samples = [1, 1, 0]\<rparr>"
    by (simp add: pipeline_defs demo_defs frame_c_def)
  from color_threshold_rule [OF demo_contract v, of None] obtain luv hls lab m where
    conv: "cvtColor demo_cv2 frame_c COLOR_BGR2LUV = Some luv"
          "cvtColor demo_cv2 frame_c COLOR_BGR2HLS = Some hls"
          "cvtColor demo_cv2 frame_c COLOR_BGR2Lab = Some lab"
    and m: "color_threshold (init None) demo_cv2 frame_c = Inr m"
           "rows m = height frame_c" "cols m = width frame_c"
           "samples m =
              map (\<lambda>i. if (120 \<le> u8val (pixels luv ! i ! 0) \<and> u8val (pixels luv ! i ! 0) \<le> 255 \<and>
                             105 \<le> u8val (pixels hls ! i ! 2) \<and> u8val (pixels hls ! i ! 2) \<le> 255) \<or>
                            (180 \<le> u8val (pixels lab ! i ! 2) \<and> u8val (pixels lab ! i ! 2) \<le> 210)
                         then 1 else 0) [0..<height frame_c * width frame_c]"
    and chroma: "\<forall>i < height frame_c * width frame_c.
         180 \<le> u8val (pixels lab ! i ! 2) \<and> u8val (pixels lab ! i ! 2) \<le> 210 \<and>
         \<not> (120 \<le> u8val (pixels luv ! i ! 0) \<and> u8val (pixels luv ! i ! 0) \<le> 255) \<and>
         \<not> (105 \<le> u8val (pixels hls ! i ! 2) \<and> u8val (pixels hls ! i ! 2) \<le> 255)
         \<longrightarrow> samples m ! i = 1"
    by (elim exE conjE)
  have px: "pixels luv ! 1 ! 0 = 62" "pixels hls ! 1 ! 2 = 70" "pixels lab ! 1 ! 2 = 198"
    using conv by (auto simp: demo_defs frame_c_def)
  have i: "1 < height frame_c * width frame_c"
    by (simp add: frame_c_def)
  have pre: "180 \<le> u8val (pixels lab ! 1 ! 2)" "u8val (pixels lab ! 1 ! 2) \<le> 210"
      "\<not> (120 \<le> u8val (pixels luv ! 1 ! 0) \<and> u8val (pixels luv ! 1 ! 0) \<le> 255)"
      "\<not> (105 \<le> u8val (pixels hls ! 1 ! 2) \<and> u8val (pixels hls ! 1 ! 2) \<le> 255)"
    using px by (simp_all add: u8val_def)
  from chroma i pre have one: "samples m ! 1 = 1"
    by blast
  show ?thesis
    apply (intro conjI demo_contract v ev)
    apply (rule exI [of _ luv], rule exI [of _ hls], rule exI [of _ lab], rule exI [of _ m])
    apply (intro conjI conv m chroma i px pre one)
    done
qed

text \<open>
  C3. For every non-empty 3-channel frame of height \<open>H\<close> and width \<open>W\<close>, the colour
  mask, the gradient mask and the final mask all have the shape \<open>(H, W)\<close>, with
  \<open>H * W\<close> samples, and every sample of each of them is 0 or 1.
\<close>

theorem masks_shape_and_values:
  assumes "cv2_contract cv" and "valid_frame (st img)"
  shows "\<exists>eq col grad final.
           eq_histogram cv img st = (Inr img, st(img := eq)) \<and>
           color_threshold self cv eq = Inr col \<and>
           gradient_threshold self cv eq = Inr grad \<and>
           fst (isolate_lines self cv img st) = Inr final \<and>
           rows col = height (st img) \<and> cols col = width (st img) \<and>
           rows grad = height (st img) \<and> cols grad = width (st img) \<and>
           rows final = height (st img) \<and> cols final = width (st img) \<and>
           length (samples col) = height (st img) * width (st img) \<and>
           length (samples grad) = height (st img) * width (st img) \<and>
           length (samples final) = height (st img) * width (st img) \<and>
           set (samples col) \<subseteq> {0, 1} \<and> set (samples grad) \<subseteq> {0, 1} \<and>
           set (samples final) \<subseteq> {0, 1}"
proof -
  from isolate_lines_ok [where st=st and img=img, OF assms, of self] obtain eq col grad where
    e: "eq_histogram cv img st = (Inr img, st(img := eq))"
    and c: "color_threshold self cv eq = Inr col" and g: "gradient_threshold self cv eq = Inr grad"
    and sh: "rows col = height (st img)" "cols col = width (st img)"
        "rows grad = height (st img)" "cols grad = width (st img)"
        "length (samples col) = height (st img) * width (st img)"
        "length (samples grad) = height (st img) * width (st img)"
    and vals: "set (samples col) \<subseteq> {0, 1}" "set (samples grad) \<subseteq> {0, 1}"
    and r: "isolate_lines self cv img st =
             (Inr \<lparr>rows = height (st img), cols = width (st img),
                   samples = map2 (\<lambda>c g. if c = 1 \<or> g = 1 then 1 else 0) (samples col) (samples grad)\<rparr>,
              st(img := eq))"
    by (elim exE conjE)
  have fin: "set (map2 (\<lambda>c g. if c = 1 \<or> g = 1 then 1 else (0::u8)) (samples col) (samples grad)) \<subseteq> {0, 1}"
    by (auto split: if_splits)
  show ?thesis
    apply (rule exI [of _ eq], rule exI [of _ col], rule exI [of _ grad])
    apply (simp only: e c g r fst_conv sh vals)
    apply (simp add: sh fin del: set_map)
    done
qed

theorem masks_shape_and_values_witness:
  "cv2_contract demo_cv2 \<and> valid_frame ((\<lambda>_. frame_a) (0::nat)) \<and>
   (\<exists>eq col grad final.
      eq_histogram demo_cv2 0 (\<lambda>_. frame_a) = (Inr 0, (\<lambda>_. frame_a)(0 := eq)) \<and>
      color_threshold (init None) demo_cv2 eq = Inr col \<and>
      gradient_threshold (init None) demo_cv2 eq = Inr grad \<and>
      fst (isolate_lines (init None) demo_cv2 0 (\<lambda>_. frame_a)) = Inr final \<and>
      rows col = 1 \<and> cols col = 2 \<and> rows grad = 1 \<and> cols grad = 2 \<and>
      rows final = 1 \<and> cols final = 2 \<and>
      length (samples col) = 2 \<and> length (samples grad) = 2 \<and> length (samples final) = 2 \<and>
      set (samples col) \<subseteq> {0, 1} \<and> set (samples grad) \<subseteq> {0, 1} \<and>
      set (samples final) \<subseteq> {0, 1})"
proof -
  have v: "valid_frame ((\<lambda>_. frame_a) (0::nat))"
    by (simp add: valid_frame_def wf_image_def frame_a_def)
  from masks_shape_and_values [where st="\<lambda>_. frame_a" and img=0 and self="init None", OF demo_contract v]
    demo_contract v
  show ?thesis by (simp add: frame_a_def)
qed








text \<open>
  C10, as stated, fails at its last clause: where equalisation leaves every sample
  as it is, as on a frame of one single colour, the caller's frame holds the same
  values after the call as before.
\<close>

theorem unchanged_frame_counterexample:
  "valid_frame frame_flat \<and>
   fst (eq_histogram demo_cv2 0 (\<lambda>_. frame_flat)) = Inr 0 \<and>
   snd (isolate_lines (init None) demo_cv2 0 (\<lambda>_. frame_flat)) 0 = frame_flat"
  by (simp add: pipeline_defs demo_defs frame_flat_def)

text \<open>
  C10, amended. For every frame, \<open>eq_histogram\<close> returns the address it was given,
  and after \<open>isolate_lines\<close> the object at that address is the equalised frame:
  each of its three channels is the library's equalisation of that channel of the
  raw frame, written over the raw values. Nothing else in the store changes.
\<close>

theorem equalization_in_place:
  assumes "cv2_contract cv" and "valid_frame (st img)"
  shows "\<exists>eq. eq_histogram cv img st = (Inr img, st(img := eq)) \<and>
           equalized_of cv (st img) eq \<and>
           snd (isolate_lines self cv img st) = st(img := eq)"
  using isolate_lines_ok [where st=st and img=img, OF assms, of self]
  by (elim exE conjE) auto

theorem equalization_in_place_witness:
  "cv2_contract demo_cv2 \<and> valid_frame ((\<lambda>_. frame_a) (0::nat)) \<and>
   (\<exists>eq. eq_histogram demo_cv2 0 (\<lambda>_. frame_a) = (Inr 0, (\<lambda>_. frame_a)(0 := eq)) \<and>
      equalized_of demo_cv2 ((\<lambda>_. frame_a) (0::nat)) eq \<and>
      snd (isolate_lines (init None) demo_cv2 0 (\<lambda>_. frame_a)) = (\<lambda>_. frame_a)(0 := eq))"
proof -
  have v: "valid_frame ((\<lambda>_. frame_a) (0::nat))"
    by (simp add: valid_frame_def wf_image_def frame_a_def)
  from equalization_in_place [where st="\<lambda>_. frame_a" and img=0 and self="init None", OF demo_contract v]
    demo_contract v
  show ?thesis by blast
qed

end
